theory Spec2Isabelle
  imports
    Complex_Main
    "HOL-Library.Char_ord"
    "HOL-Library.List_Lexorder"
    "HOL-Library.Multiset"
    "HOL-Library.Sublist"
begin

section \<open>JavaScript values used by the viewer\<close>

text \<open>
  A JavaScript number is a real or \<open>NaN\<close>; arithmetic on the real part is exact
  (rounding of doubles is not modelled). A comparison with \<open>NaN\<close> is false.
  An optional property (\<open>undefined\<close> when absent) is an \<open>option\<close>.
\<close>

datatype number = Num real | NaN

fun ge :: "number \<Rightarrow> real \<Rightarrow> bool" where
  "ge (Num x) t = (t \<le> x)"
| "ge NaN t = False"

text \<open>
  A string is a list of code units below 256 (the Latin-1 range of JavaScript's UTF-16
  strings; text with code units from 256 on is not modelled). On that range
  \<open>String.prototype.toLowerCase\<close> moves the capital letters \<open>A\<close> to \<open>Z\<close> (0x41 to 0x5A),
  0xC0 to 0xD6 and 0xD8 to 0xDE up by 32 and leaves every other code unit as it is.
  \<open>String.prototype.includes\<close> is the substring test (\<open>includes\<close> is reserved, hence
  \<open>includesStr\<close>).
\<close>

definition toLowerChar :: "char \<Rightarrow> char" where
  "toLowerChar c =
     (if (CHR ''A'' \<le> c \<and> c \<le> CHR ''Z'') \<or>
         (CHR 0xC0 \<le> c \<and> c \<le> CHR 0xD6) \<or>
         (CHR 0xD8 \<le> c \<and> c \<le> CHR 0xDE)
      then char_of (of_char c + (32::nat)) else c)"

definition toLowerCase :: "string \<Rightarrow> string" where
  "toLowerCase s = map toLowerChar s"

fun includesStr :: "string \<Rightarrow> string \<Rightarrow> bool" where
  "includesStr [] q = (q = [])"
| "includesStr (c # cs) q = (prefix q (c # cs) \<or> includesStr cs q)"

text \<open>
  The value of \<open>x?.toLowerCase().includes(q)\<close> is \<open>undefined\<close> when \<open>x\<close> is absent and a
  boolean otherwise; \<open>a || b\<close> yields \<open>a\<close> when \<open>a\<close> is truthy and \<open>b\<close> otherwise.
\<close>

definition truthy :: "bool option \<Rightarrow> bool" where
  "truthy b = (b = Some True)"

definition jsOr :: "bool option \<Rightarrow> bool option \<Rightarrow> bool option" where
  "jsOr a b = (if truthy a then a else b)"

section \<open>Visitors and filter criteria\<close>

record device =
  type :: "string option"

record visitor =
  visitorId :: string
  firstName :: "string option"
  lastName :: "string option"
  email :: "string option"
  city :: "string option"
  country :: "string option"
  countryCode :: "string option"
  isCustomer :: "bool option"
  device :: "device option"
  latitude :: real
  longitude :: real

text \<open>
  The \<open>filters\<close> state of \<open>App\<close>, with the keys \<open>country\<close>, \<open>device\<close>, \<open>customer\<close> and
  \<open>countryCode\<close> (prefixed here, the visitor has properties of the same names); every
  value is a string, \<open>''''\<close> when unset.
\<close>

record filters =
  fCountry :: string
  fDevice :: string
  fCustomer :: string
  fCountryCode :: string

section \<open>utils/visitorFilters\<close>

definition optIncludes :: "string option \<Rightarrow> string \<Rightarrow> bool option" where
  "optIncludes field query = map_option (\<lambda>s. includesStr (toLowerCase s) query) field"

definition matchesSearchQuery :: "visitor \<Rightarrow> string \<Rightarrow> bool option" where
  "matchesSearchQuery v searchQuery =
     (if searchQuery = [] then Some True
      else (let query = toLowerCase searchQuery in
        jsOr (optIncludes (firstName v) query)
          (jsOr (optIncludes (lastName v) query)
            (jsOr (optIncludes (email v) query)
              (jsOr (optIncludes (city v) query)
                (optIncludes (country v) query))))))"

definition matchesCountryFilter :: "visitor \<Rightarrow> string \<Rightarrow> bool" where
  "matchesCountryFilter v countryFilter =
     (if countryFilter = [] then True
      else map_option toLowerCase (country v) = Some (toLowerCase countryFilter))"

definition matchesDeviceFilter :: "visitor \<Rightarrow> string \<Rightarrow> bool" where
  "matchesDeviceFilter v deviceFilter =
     (if deviceFilter = [] then True
      else map_option toLowerCase (Option.bind (device v) type) = Some (toLowerCase deviceFilter))"

definition matchesCustomerFilter :: "visitor \<Rightarrow> string \<Rightarrow> bool" where
  "matchesCustomerFilter v customerFilter =
     (if customerFilter = '''' then True
      else if customerFilter = ''customer'' then isCustomer v = Some True
      else if customerFilter = ''visitor'' then isCustomer v = Some False
      else True)"

definition matchesCountryCodeFilter :: "visitor \<Rightarrow> string \<Rightarrow> bool" where
  "matchesCountryCodeFilter v countryCodeFilter =
     (if countryCodeFilter = [] then True
      else map_option toLowerCase (countryCode v) = Some (toLowerCase countryCodeFilter))"

text \<open>The callback that \<open>filterVisitors\<close> hands to \<open>Array.prototype.filter\<close>.\<close>

definition visitorPasses :: "visitor \<Rightarrow> string \<Rightarrow> filters \<Rightarrow> bool" where
  "visitorPasses v searchQuery fs =
     (truthy (matchesSearchQuery v searchQuery) \<and>
      matchesCountryFilter v (fCountry fs) \<and>
      matchesDeviceFilter v (fDevice fs) \<and>
      matchesCustomerFilter v (fCustomer fs) \<and>
      matchesCountryCodeFilter v (fCountryCode fs))"

definition filterVisitors :: "visitor list \<Rightarrow> string \<Rightarrow> filters \<Rightarrow> visitor list" where
  "filterVisitors visitors searchQuery fs =
     filter (\<lambda>v. visitorPasses v searchQuery fs) visitors"

text \<open>
  The criteria of a filtering pass are the search text and the \<open>filters\<close> object. \<open>App\<close>
  changes one field at a time: \<open>setSearchQuery\<close> for the text, \<open>handleFilterChange\<close> for a
  key of \<open>filters\<close>; clearing a field stores the empty string.
\<close>

datatype filterKey = KCountry | KDevice | KCustomer | KCountryCode

fun handleFilterChange :: "filterKey \<Rightarrow> string \<Rightarrow> filters \<Rightarrow> filters" where
  "handleFilterChange KCountry val prev = prev\<lparr>fCountry := val\<rparr>"
| "handleFilterChange KDevice val prev = prev\<lparr>fDevice := val\<rparr>"
| "handleFilterChange KCustomer val prev = prev\<lparr>fCustomer := val\<rparr>"
| "handleFilterChange KCountryCode val prev = prev\<lparr>fCountryCode := val\<rparr>"

datatype criterion = SearchText | Filter filterKey

fun clearCriterion :: "criterion \<Rightarrow> string \<times> filters \<Rightarrow> string \<times> filters" where
  "clearCriterion SearchText (q, fs) = ('''', fs)"
| "clearCriterion (Filter k) (q, fs) = (q, handleFilterChange k '''' fs)"

fun criterionValue :: "criterion \<Rightarrow> string \<times> filters \<Rightarrow> string" where
  "criterionValue SearchText (q, fs) = q"
| "criterionValue (Filter KCountry) (q, fs) = fCountry fs"
| "criterionValue (Filter KDevice) (q, fs) = fDevice fs"
| "criterionValue (Filter KCustomer) (q, fs) = fCustomer fs"
| "criterionValue (Filter KCountryCode) (q, fs) = fCountryCode fs"

definition passes :: "visitor \<Rightarrow> string \<times> filters \<Rightarrow> bool" where
  "passes v c = visitorPasses v (fst c) (snd c)"

definition clearedFilters :: filters where
  "clearedFilters = \<lparr>fCountry = '''', fDevice = '''', fCustomer = '''', fCountryCode = ''''\<rparr>"

text \<open>Two sample records, the second without the optional properties.\<close>

definition alice :: visitor where
  "alice = \<lparr>visitorId = ''v1'', firstName = Some ''Alice'', lastName = Some ''Moreau'',
     email = Some ''alice@example.com'', city = Some ''Paris'', country = Some ''France'',
     countryCode = Some ''FR'', isCustomer = Some False,
     device = Some \<lparr>type = Some ''mobile''\<rparr>, latitude = 48, longitude = 2\<rparr>"

definition bare :: visitor where
  "bare = \<lparr>visitorId = ''v2'', firstName = None, lastName = None, email = None, city = None,
     country = None, countryCode = None, isCustomer = None, device = None,
     latitude = 0, longitude = 0\<rparr>"

subsection \<open>getUniqueValues\<close>

text \<open>
  The accessor is a property name or a function. The function is documented to return
  an array of strings, so accessors are the string-valued ones: a function into an
  optional string, or the name of a string-valued property of the record.
\<close>

datatype fieldKey =
  PVisitorId | PFirstName | PLastName | PEmail | PCity | PCountry | PCountryCode

fun property :: "fieldKey \<Rightarrow> visitor \<Rightarrow> string option" where
  "property PVisitorId v = Some (visitorId v)"
| "property PFirstName v = firstName v"
| "property PLastName v = lastName v"
| "property PEmail v = email v"
| "property PCity v = city v"
| "property PCountry v = country v"
| "property PCountryCode v = countryCode v"

datatype fieldAccessor = FieldName fieldKey | Accessor "visitor \<Rightarrow> string option"

fun getValue :: "fieldAccessor \<Rightarrow> visitor \<Rightarrow> string option" where
  "getValue (Accessor f) v = f v"
| "getValue (FieldName k) v = property k v"

text \<open>\<open>Boolean(x)\<close>: \<open>undefined\<close> and the empty string are falsy.\<close>

definition Boolean :: "string option \<Rightarrow> bool" where
  "Boolean x = (case x of None \<Rightarrow> False | Some s \<Rightarrow> s \<noteq> [])"

text \<open>\<open>Array.prototype.indexOf\<close>: the first index of the value, \<open>-1\<close> when absent.\<close>

fun indexOf :: "'a list \<Rightarrow> 'a \<Rightarrow> int" where
  "indexOf [] x = -1"
| "indexOf (y # ys) x =
     (if y = x then 0 else (let i = indexOf ys x in if i < 0 then -1 else i + 1))"

text \<open>\<open>.filter((value, index, self) => self.indexOf(value) === index)\<close>\<close>

definition firstOccurrences :: "'a list \<Rightarrow> 'a list" where
  "firstOccurrences self =
     map fst (filter (\<lambda>(val, index). indexOf self val = int index)
                (zip self [0..<length self]))"

text \<open>
  What survives \<open>filter(Boolean)\<close> is a string, so the option is dropped there.
  \<open>Array.prototype.sort\<close> without a comparator orders strings by their code units, the
  lexicographic order of \<open>string\<close>.
\<close>

definition getUniqueValues :: "visitor list \<Rightarrow> fieldAccessor \<Rightarrow> string list" where
  "getUniqueValues visitors fieldAccessor =
     (let values = firstOccurrences
            (map the (filter Boolean (map (getValue fieldAccessor) visitors)))
      in sort values)"

section \<open>constants\<close>

definition MARKER_SELECTED_ZOOM :: real where
  "MARKER_SELECTED_ZOOM = 3"

definition HIGH_THRESHOLD :: real where
  "HIGH_THRESHOLD = 80"

definition MEDIUM_THRESHOLD :: real where
  "MEDIUM_THRESHOLD = 50"

definition HIGH_COLOR :: string where
  "HIGH_COLOR = ''#34C759''"

definition MEDIUM_COLOR :: string where
  "MEDIUM_COLOR = ''#FFD60A''"

definition LOW_COLOR :: string where
  "LOW_COLOR = ''#FF453A''"

definition OPACITY :: string where
  "OPACITY = ''1F''"

definition RADIUS :: real where
  "RADIUS = 60"

definition MAX_ZOOM :: real where
  "MAX_ZOOM = 14"

definition MIN_ZOOM :: real where
  "MIN_ZOOM = 2"

definition CLUSTER_MAX_EXPANSION_ZOOM :: real where
  "CLUSTER_MAX_EXPANSION_ZOOM = 18"

record viewState =
  vsLongitude :: real
  vsLatitude :: real
  vsZoom :: real

definition DEFAULT_VIEW_STATE :: viewState where
  "DEFAULT_VIEW_STATE = \<lparr>vsLongitude = 0, vsLatitude = 20, vsZoom = 5 / 2\<rparr>"

section \<open>utils/conversionScore\<close>

definition getConversionScoreColor :: "number \<Rightarrow> string" where
  "getConversionScoreColor score =
     (if ge score HIGH_THRESHOLD then HIGH_COLOR
      else if ge score MEDIUM_THRESHOLD then MEDIUM_COLOR
      else LOW_COLOR)"

definition getConversionScoreBackgroundColor :: "number \<Rightarrow> string" where
  "getConversionScoreBackgroundColor score =
     (let color = getConversionScoreColor score in color @ OPACITY)"

section \<open>hooks/useClustering\<close>

text \<open>
  The hook builds the argument object of the external \<open>useSupercluster\<close> and returns what
  that collaborator answers. The bounds are the array \<open>[west, south, east, north]\<close>;
  \<open>None\<close> stands for \<open>null\<close> on the way in and for \<open>undefined\<close> in the argument object
  (\<open>bounds || undefined\<close>). The zoom parameter may be \<open>undefined\<close> (\<open>None\<close>).
\<close>

type_synonym bbox = "real \<times> real \<times> real \<times> real"

record feature =
  cluster :: bool
  featureVisitorId :: string
  featureVisitor :: visitor
  coordinates :: "real \<times> real"

definition toPoint :: "visitor \<Rightarrow> feature" where
  "toPoint v = \<lparr>cluster = False, featureVisitorId = visitorId v, featureVisitor = v,
     coordinates = (longitude v, latitude v)\<rparr>"

record superclusterParams =
  points :: "feature list"
  boundsArg :: "bbox option"
  zoomArg :: number
  radius :: real
  maxZoom :: real

text \<open>Truthiness of a number: \<open>undefined\<close>, \<open>NaN\<close> and zero are falsy.\<close>

fun truthyNumber :: "number option \<Rightarrow> bool" where
  "truthyNumber None = False"
| "truthyNumber (Some NaN) = False"
| "truthyNumber (Some (Num x)) = (x \<noteq> 0)"

definition useSuperclusterParams ::
    "visitor list \<Rightarrow> bbox option \<Rightarrow> number option \<Rightarrow> superclusterParams" where
  "useSuperclusterParams visitors bnds zm =
     \<lparr>points = map toPoint visitors,
      boundsArg = (case bnds of Some b \<Rightarrow> Some b | None \<Rightarrow> None),
      zoomArg = (if truthyNumber zm then the zm else Num MIN_ZOOM),
      radius = RADIUS,
      maxZoom = MAX_ZOOM\<rparr>"

definition useClustering ::
    "(superclusterParams \<Rightarrow> 'r) \<Rightarrow> visitor list \<Rightarrow> bbox option \<Rightarrow> number option \<Rightarrow> 'r" where
  "useClustering useSupercluster visitors bnds zm =
     useSupercluster (useSuperclusterParams visitors bnds zm)"

section \<open>App\<close>

subsection \<open>The map collaborator as the bounds memo sees it\<close>

text \<open>
  A call of a collaborator method either throws or returns; a method may be missing from
  the object (\<open>None\<close> at the method), and a call may return \<open>null\<close> (\<open>None\<close> in the
  result). \<open>mapRef.current\<close> is \<open>null\<close> until the map is mounted.
\<close>

datatype exn = TypeError | CollaboratorError

datatype 'a outcome = Throws | Returns 'a

record lngLat =
  lng :: real
  lat :: real

record lngLatBounds =
  getNorthEast :: "lngLat option outcome"
  getSouthWest :: "lngLat option outcome"

record mapInstance =
  getBounds :: "lngLatBounds option outcome option"

record mapRefCurrent =
  getMap :: "mapInstance option outcome option"

type_synonym mapRef = "mapRefCurrent option"

text \<open>The body of the \<open>try\<close> block, from the call \<open>mapRef.current.getMap()\<close> on.\<close>

definition boundsTry :: "mapInstance option outcome \<Rightarrow> exn + bbox option" where
  "boundsTry getMapCall =
     (case getMapCall of
        Throws \<Rightarrow> Inl CollaboratorError
      | Returns None \<Rightarrow> Inr None
      | Returns (Some mp) \<Rightarrow>
          (case getBounds mp of
             None \<Rightarrow> Inr None
           | Some Throws \<Rightarrow> Inl CollaboratorError
           | Some (Returns None) \<Rightarrow> Inl TypeError
           | Some (Returns (Some mapBounds)) \<Rightarrow>
               (case getNorthEast mapBounds of
                  Throws \<Rightarrow> Inl CollaboratorError
                | Returns ne \<Rightarrow>
                    (case getSouthWest mapBounds of
                       Throws \<Rightarrow> Inl CollaboratorError
                     | Returns sw \<Rightarrow>
                         (case sw of
                            None \<Rightarrow> Inl TypeError
                          | Some s \<Rightarrow>
                              (case ne of
                                 None \<Rightarrow> Inl TypeError
                               | Some n \<Rightarrow> Inr (Some (lng s, lat s, lng n, lat n))))))))"

text \<open>The memo \<open>bounds\<close>: the guard, then the \<open>try\<close> block with \<open>catch\<close> returning \<open>null\<close>.\<close>

definition bounds :: "mapRef \<Rightarrow> exn + bbox option" where
  "bounds mapRef =
     (case mapRef of
        None \<Rightarrow> Inr None
      | Some current \<Rightarrow>
          (case getMap current of
             None \<Rightarrow> Inr None
           | Some getMapCall \<Rightarrow>
               (case boundsTry getMapCall of
                  Inl error \<Rightarrow> Inr None
                | Inr result \<Rightarrow> Inr result)))"

fun mathFloor :: "number \<Rightarrow> number" where
  "mathFloor (Num x) = Num (of_int \<lfloor>x\<rfloor>)"
| "mathFloor NaN = NaN"

text \<open>
  \<open>bounds\<close> is memoised with \<open>useMemo\<close> on the dependencies \<open>viewState.longitude\<close>,
  \<open>viewState.latitude\<close> and \<open>viewState.zoom\<close>: the callback runs on the first render
  (no memo yet) and on a render where a dependency differs from the remembered ones;
  otherwise the remembered value is used and the map is not asked.
\<close>

record boundsMemo =
  memoDeps :: "real \<times> real \<times> real"
  memoValue :: "bbox option"

definition boundsDeps :: "viewState \<Rightarrow> real \<times> real \<times> real" where
  "boundsDeps view = (vsLongitude view, vsLatitude view, vsZoom view)"

definition computeBoundsMemo :: "mapRef \<Rightarrow> viewState \<Rightarrow> exn + boundsMemo" where
  "computeBoundsMemo mapRef view =
     (case bounds mapRef of
        Inl error \<Rightarrow> Inl error
      | Inr result \<Rightarrow> Inr \<lparr>memoDeps = boundsDeps view, memoValue = result\<rparr>)"

definition useMemoBounds :: "boundsMemo option \<Rightarrow> mapRef \<Rightarrow> viewState \<Rightarrow> exn + boundsMemo" where
  "useMemoBounds prev mapRef view =
     (case prev of
        None \<Rightarrow> computeBoundsMemo mapRef view
      | Some memo \<Rightarrow>
          if memoDeps memo = boundsDeps view then Inr memo
          else computeBoundsMemo mapRef view)"

text \<open>
  One render of \<open>App\<close> as far as clustering goes: the memo, then the call
  \<open>useClustering(filteredVisitors, bounds, Math.floor(viewState.zoom))\<close>. The result is
  the new memo and what the clustering collaborator \<open>useSupercluster\<close> answers.
\<close>

definition renderClustering ::
    "(superclusterParams \<Rightarrow> 'r) \<Rightarrow> boundsMemo option \<Rightarrow> mapRef \<Rightarrow> viewState \<Rightarrow> visitor list
      \<Rightarrow> exn + boundsMemo \<times> 'r" where
  "renderClustering useSupercluster prev mapRef view filteredVisitors =
     (case useMemoBounds prev mapRef view of
        Inl error \<Rightarrow> Inl error
      | Inr memo \<Rightarrow>
          Inr (memo, useClustering useSupercluster filteredVisitors (memoValue memo)
                 (Some (mathFloor (Num (vsZoom view))))))"

text \<open>West at most east and south at most north, for \<open>[west, south, east, north]\<close>.\<close>

fun validRect :: "bbox \<Rightarrow> bool" where
  "validRect (west, south, east, north) = (west \<le> east \<and> south \<le> north)"

definition mountedCamera :: "lngLat \<Rightarrow> lngLat \<Rightarrow> mapRef" where
  "mountedCamera sw ne =
     Some \<lparr>getMap = Some (Returns (Some \<lparr>getBounds = Some (Returns (Some
       \<lparr>getNorthEast = Returns (Some ne), getSouthWest = Returns (Some sw)\<rparr>))\<rparr>))\<rparr>"

subsection \<open>Selection and camera commands\<close>

text \<open>
  The state that the handlers touch: \<open>selectedMarker\<close> (\<open>null\<close> or one object), whether
  \<open>mapRef.current\<close> is set, and the \<open>flyTo\<close> commands sent to the map so far. The selected
  object is \<open>{id: visitor.visitorId, ...visitor}\<close>: its \<open>id\<close> (\<open>selId\<close>) and the copied
  properties of the visitor (\<open>selVisitor\<close>); the visitor format has no property \<open>id\<close> of
  its own.
\<close>

record flyToOptions =
  center :: "real \<times> real"
  zoom :: real
  duration :: nat
  essential :: bool

record selection =
  selId :: string
  selVisitor :: visitor

record appState =
  selectedMarker :: "selection option"
  mapMounted :: bool
  flights :: "flyToOptions list"

definition handleMarkerClick :: "visitor \<Rightarrow> appState \<Rightarrow> appState" where
  "handleMarkerClick v st =
     (let st1 = st\<lparr>selectedMarker := Some \<lparr>selId = visitorId v, selVisitor = v\<rparr>\<rparr>
      in if mapMounted st1
         then st1\<lparr>flights := flights st1 @
                [\<lparr>center = (longitude v, latitude v), zoom = MARKER_SELECTED_ZOOM,
                  duration = 1000, essential = True\<rparr>]\<rparr>
         else st1)"

definition closePopup :: "appState \<Rightarrow> appState" where
  "closePopup st = st\<lparr>selectedMarker := None\<rparr>"

definition resetView :: "appState \<Rightarrow> appState" where
  "resetView st =
     (let st1 = (if mapMounted st
                 then st\<lparr>flights := flights st @
                   [\<lparr>center = (vsLongitude DEFAULT_VIEW_STATE, vsLatitude DEFAULT_VIEW_STATE),
                     zoom = vsZoom DEFAULT_VIEW_STATE, duration = 1500, essential = True\<rparr>]\<rparr>
                 else st)
      in st1\<lparr>selectedMarker := None\<rparr>)"

definition handleMapClick :: "appState \<Rightarrow> appState" where
  "handleMapClick st = (if selectedMarker st \<noteq> None then closePopup st else st)"

text \<open>The \<open>isSelected\<close> property of a marker: \<open>selectedMarker?.id === visitor.visitorId\<close>.\<close>

definition isSelected :: "appState \<Rightarrow> visitor \<Rightarrow> bool" where
  "isSelected st v = (map_option selId (selectedMarker st) = Some (visitorId v))"

datatype event = MarkerClick visitor | ClosePopup | ResetView | MapClick

fun dispatch :: "appState \<Rightarrow> event \<Rightarrow> appState" where
  "dispatch st (MarkerClick v) = handleMarkerClick v st"
| "dispatch st ClosePopup = closePopup st"
| "dispatch st ResetView = resetView st"
| "dispatch st MapClick = handleMapClick st"

definition initialState :: "bool \<Rightarrow> appState" where
  "initialState mounted = \<lparr>selectedMarker = None, mapMounted = mounted, flights = []\<rparr>"

text \<open>The ids that a state holds as selected.\<close>

definition selectedIds :: "appState \<Rightarrow> string set" where
  "selectedIds st = set_option (map_option selId (selectedMarker st))"

subsection \<open>Cluster expansion\<close>

text \<open>
  The supercluster instance answers \<open>getClusterExpansionZoom(id)\<close> with a zoom, or throws
  on an id it does not know (\<open>None\<close>). The instance itself is \<open>undefined\<close> (\<open>None\<close>) until
  the collaborator has built its index.
\<close>

type_synonym supercluster = "nat \<Rightarrow> real option"

record clusterFeature =
  clusterId :: nat
  clusterCoordinates :: "real \<times> real"

definition expansionZoom :: "real \<Rightarrow> real" where
  "expansionZoom reported = min (reported + 1) CLUSTER_MAX_EXPANSION_ZOOM"

definition handleClusterClick ::
    "supercluster option \<Rightarrow> clusterFeature \<Rightarrow> appState \<Rightarrow> exn + appState" where
  "handleClusterClick sc c st =
     (case sc of
        None \<Rightarrow> Inr st
      | Some getClusterExpansionZoom \<Rightarrow>
          if \<not> mapMounted st then Inr st
          else (case getClusterExpansionZoom (clusterId c) of
                  None \<Rightarrow> Inl CollaboratorError
                | Some reported \<Rightarrow>
                    Inr (st\<lparr>flights := flights st @
                      [\<lparr>center = clusterCoordinates c, zoom = expansionZoom reported,
                        duration = 500, essential = True\<rparr>]\<rparr>)))"

section \<open>Sample inputs\<close>

definition sampleCluster :: clusterFeature where
  "sampleCluster = \<lparr>clusterId = 7, clusterCoordinates = (2, 48)\<rparr>"

definition sampleIndex :: supercluster where
  "sampleIndex i = (if i = 7 then Some 5 else None)"

text \<open>A mounted map whose \<open>getBounds\<close> call throws.\<close>

definition failingCamera :: mapRef where
  "failingCamera = Some \<lparr>getMap = Some (Returns (Some \<lparr>getBounds = Some Throws\<rparr>))\<rparr>"

section \<open>Properties of the record filter\<close>

lemma matchesSearchQuery_empty: "matchesSearchQuery v '''' = Some True"
  by (simp add: matchesSearchQuery_def)

text \<open>
  C1, as the code has it: under the filter value \<open>''visitor''\<close> the customer sub-check
  compares \<open>isCustomer\<close> strictly with \<open>false\<close>, so a record without the property is
  rejected.
\<close>

theorem matchesCustomerFilter_visitor_absent:
  "isCustomer bare = None \<and> matchesCustomerFilter bare ''visitor'' = False \<and>
   matchesCustomerFilter v ''visitor'' = (isCustomer v = Some False)"
  by (simp add: matchesCustomerFilter_def bare_def)

text \<open>
  C4: a record that passes the filter predicate under some criteria still passes after
  one field of the criteria has been cleared.
\<close>

theorem relaxation_keeps_passing:
  assumes "passes v c" and "criterionValue k c \<noteq> ''''"
  shows "passes v (clearCriterion k c)"
proof (cases c)
  case (Pair q fs)
  show ?thesis
  proof (cases k)
    case SearchText
    with Pair assms(1) show ?thesis
      by (simp add: passes_def visitorPasses_def matchesSearchQuery_empty truthy_def)
  next
    case (Filter key)
    with Pair assms(1) show ?thesis
      by (cases key)
         (simp_all add: passes_def visitorPasses_def matchesCountryFilter_def
            matchesDeviceFilter_def matchesCustomerFilter_def matchesCountryCodeFilter_def)
  qed
qed

theorem relaxation_keeps_passing_witness:
  "passes alice (''ali'', clearedFilters\<lparr>fCountry := ''FRANCE''\<rparr>) \<and>
   passes alice (''ali'', clearedFilters)"
proof -
  have p: "passes alice (''ali'', clearedFilters\<lparr>fCountry := ''FRANCE''\<rparr>)"
    by code_simp
  have n: "criterionValue (Filter KCountry) (''ali'', clearedFilters\<lparr>fCountry := ''FRANCE''\<rparr>) \<noteq> ''''"
    by simp
  from relaxation_keeps_passing [OF p n] p show ?thesis
    by (simp add: clearedFilters_def)
qed

text \<open>
  C5: with the empty search text and every filter field empty, \<open>filterVisitors\<close> returns
  its input list unchanged, in the same order; so it does when the customer field holds
  a value other than \<open>customer\<close> and \<open>visitor\<close>, such as \<open>any\<close>.
\<close>

theorem filterVisitors_cleared_identity:
  "filterVisitors visitors '''' clearedFilters = visitors \<and>
   filterVisitors visitors '''' (clearedFilters\<lparr>fCustomer := ''any''\<rparr>) = visitors"
  by (simp add: filterVisitors_def visitorPasses_def matchesSearchQuery_empty truthy_def
      clearedFilters_def matchesCountryFilter_def matchesDeviceFilter_def
      matchesCustomerFilter_def matchesCountryCodeFilter_def)

section \<open>Properties of getUniqueValues\<close>

lemma indexOf_mem:
  "x \<in> set xs \<Longrightarrow>
     0 \<le> indexOf xs x \<and> nat (indexOf xs x) < length xs \<and> xs ! nat (indexOf xs x) = x"
proof (induction xs)
  case Nil
  then show ?case by simp
next
  case (Cons y ys)
  show ?case
  proof (cases "y = x")
    case True
    then show ?thesis by simp
  next
    case False
    with Cons.prems have "x \<in> set ys" by simp
    from Cons.IH [OF this] False show ?thesis
      by (simp add: Let_def nat_add_distrib)
  qed
qed

lemma set_firstOccurrences: "set (firstOccurrences xs) = set xs"
proof
  show "set (firstOccurrences xs) \<subseteq> set xs"
    by (auto simp: firstOccurrences_def dest: set_zip_leftD)
next
  show "set xs \<subseteq> set (firstOccurrences xs)"
  proof
    fix x assume "x \<in> set xs"
    from indexOf_mem [OF this] obtain i where
      i: "indexOf xs x = int i" "i < length xs" "xs ! i = x"
      by (metis int_nat_eq)
    then have "(x, i) \<in> set (zip xs [0..<length xs])"
      by (auto simp: set_zip)
    with i(1) have "(x, i) \<in> set (filter (\<lambda>(val, index). indexOf xs val = int index)
        (zip xs [0..<length xs]))"
      by simp
    then show "x \<in> set (firstOccurrences xs)"
      unfolding firstOccurrences_def by force
  qed
qed

lemma distinct_firstOccurrences: "distinct (firstOccurrences xs)"
proof -
  let ?ps = "filter (\<lambda>(val, index). indexOf xs val = int index) (zip xs [0..<length xs])"
  have d: "distinct ?ps"
    by (simp add: distinct_zipI2)
  have "inj_on fst (set ?ps)"
    by (rule inj_onI) auto
  with d show ?thesis
    by (simp add: firstOccurrences_def distinct_map)
qed

lemma set_collected:
  "set (map the (filter Boolean (map (getValue a) vs)))
     = {s. s \<noteq> [] \<and> (\<exists>v \<in> set vs. getValue a v = Some s)}"
  by (induction vs) (auto simp: Boolean_def split: option.splits)

lemma set_getUniqueValues:
  "set (getUniqueValues vs a) = {s. s \<noteq> [] \<and> (\<exists>v \<in> set vs. getValue a v = Some s)}"
  using set_collected [of a vs]
  by (simp add: getUniqueValues_def set_firstOccurrences)

lemma distinct_getUniqueValues: "distinct (getUniqueValues vs a)"
  by (simp add: getUniqueValues_def distinct_firstOccurrences)

lemma sorted_getUniqueValues: "sorted (getUniqueValues vs a)"
  by (simp add: getUniqueValues_def)

text \<open>
  C6: the result of \<open>getUniqueValues\<close> has no duplicates, holds no empty string, is sorted
  ascending in the lexicographic order, and is the same for every permutation of the
  input list.
\<close>

theorem getUniqueValues_sorted_unique:
  assumes "mset visitors' = mset visitors"
  shows "distinct (getUniqueValues visitors a) \<and>
         [] \<notin> set (getUniqueValues visitors a) \<and>
         sorted (getUniqueValues visitors a) \<and>
         getUniqueValues visitors' a = getUniqueValues visitors a"
proof -
  from assms have "set visitors' = set visitors"
    by (rule mset_eq_setD)
  then have "set (getUniqueValues visitors' a) = set (getUniqueValues visitors a)"
    by (simp add: set_getUniqueValues)
  then have "getUniqueValues visitors' a = getUniqueValues visitors a"
    by (intro sorted_distinct_set_unique sorted_getUniqueValues distinct_getUniqueValues)
  then show ?thesis
    by (simp add: distinct_getUniqueValues sorted_getUniqueValues set_getUniqueValues)
qed

theorem getUniqueValues_sorted_unique_witness:
  "mset [bare, alice, alice\<lparr>country := Some ''Chile''\<rparr>, alice]
     = mset [alice, alice\<lparr>country := Some ''Chile''\<rparr>, alice, bare] \<and>
   getUniqueValues [bare, alice, alice\<lparr>country := Some ''Chile''\<rparr>, alice] (FieldName PCountry)
     = getUniqueValues [alice, alice\<lparr>country := Some ''Chile''\<rparr>, alice, bare] (FieldName PCountry) \<and>
   getUniqueValues [alice, alice\<lparr>country := Some ''Chile''\<rparr>, alice, bare] (FieldName PCountry)
     = [''Chile'', ''France'']"
proof -
  have h: "mset [bare, alice, alice\<lparr>country := Some ''Chile''\<rparr>, alice]
     = mset [alice, alice\<lparr>country := Some ''Chile''\<rparr>, alice, bare]"
    by simp
  have v: "getUniqueValues [alice, alice\<lparr>country := Some ''Chile''\<rparr>, alice, bare] (FieldName PCountry)
     = [''Chile'', ''France'']"
    by code_simp
  from getUniqueValues_sorted_unique [OF h, of "FieldName PCountry"] h v show ?thesis
    by simp
qed

section \<open>Properties of the conversion score colours\<close>

text \<open>
  C10: the colour of a score is the high colour exactly from 80 on, the medium colour
  exactly from 50 up to (not including) 80, and the low colour exactly below 50, negative
  scores included; \<open>NaN\<close> gets the low colour; the background colour is that colour
  followed by the opacity suffix \<open>1F\<close>.
\<close>

theorem getConversionScoreColor_partition:
  "(getConversionScoreColor (Num x) = HIGH_COLOR) = (80 \<le> x) \<and>
   (getConversionScoreColor (Num x) = MEDIUM_COLOR) = (50 \<le> x \<and> x < 80) \<and>
   (getConversionScoreColor (Num x) = LOW_COLOR) = (x < 50) \<and>
   getConversionScoreColor NaN = LOW_COLOR \<and>
   getConversionScoreBackgroundColor s = getConversionScoreColor s @ ''1F''"
  by (auto simp: getConversionScoreColor_def getConversionScoreBackgroundColor_def
      HIGH_THRESHOLD_def MEDIUM_THRESHOLD_def HIGH_COLOR_def MEDIUM_COLOR_def LOW_COLOR_def
      OPACITY_def)

section \<open>Properties of the clustering call\<close>

text \<open>
  C2, as stated, fails: a view zoom of 1.5 is floored to 1, which is truthy, so the zoom
  handed to the clustering collaborator is 1, below \<open>MIN_ZOOM\<close>.
\<close>

theorem useClustering_zoom_counterexample:
  "zoomArg (useSuperclusterParams [] None (Some (mathFloor (Num (3 / 2))))) = Num 1 \<and>
   \<not> ge (zoomArg (useSuperclusterParams [] None (Some (mathFloor (Num (3 / 2)))))) MIN_ZOOM"
  by (simp add: useSuperclusterParams_def MIN_ZOOM_def)

text \<open>
  C2, amended: \<open>MIN_ZOOM\<close> (2) is the fallback for a falsy zoom only. An absent zoom, \<open>NaN\<close>
  and 0 give 2; every other number is handed on unchanged, so the zoom that reaches the
  collaborator is at least 2 exactly when the supplied number is 0 or at least 2.
\<close>

theorem useClustering_zoom_fallback:
  "zoomArg (useSuperclusterParams vs b None) = Num 2 \<and>
   zoomArg (useSuperclusterParams vs b (Some NaN)) = Num 2 \<and>
   zoomArg (useSuperclusterParams vs b (Some (Num x))) = Num (if x = 0 then 2 else x) \<and>
   ge (zoomArg (useSuperclusterParams vs b (Some (Num x)))) MIN_ZOOM = (x = 0 \<or> 2 \<le> x)"
  by (simp add: useSuperclusterParams_def MIN_ZOOM_def)

section \<open>Properties of the bounds memo\<close>

lemma bounds_Some_iff:
  "(bounds mapRef = Inr (Some r)) =
   (\<exists>current mp mapBounds sw ne. mapRef = Some current \<and>
      getMap current = Some (Returns (Some mp)) \<and>
      getBounds mp = Some (Returns (Some mapBounds)) \<and>
      getSouthWest mapBounds = Returns (Some sw) \<and>
      getNorthEast mapBounds = Returns (Some ne) \<and>
      r = (lng sw, lat sw, lng ne, lat ne))"
  by (auto simp: bounds_def boundsTry_def split: option.splits outcome.splits sum.splits)

lemma bounds_total: "bounds mapRef \<noteq> Inl e"
  by (simp add: bounds_def split: option.splits sum.splits)

text \<open>
  C3, as stated, fails: the memo copies the corners it is given, so a collaborator that
  reports a south-west corner east of its north-east corner yields a rectangle with
  west greater than east.
\<close>

theorem bounds_rectangle_counterexample:
  "bounds (mountedCamera \<lparr>lng = 10, lat = 0\<rparr> \<lparr>lng = 5, lat = 0\<rparr>) = Inr (Some (10, 0, 5, 0)) \<and>
   \<not> validRect (10, 0, 5, 0)"
  by (simp add: bounds_def boundsTry_def mountedCamera_def)

text \<open>
  C3, amended: whenever the memo returns a rectangle, every call of the chain has
  succeeded and the rectangle is \<open>[sw.lng, sw.lat, ne.lng, ne.lat]\<close> of the reported
  corners, unchanged; it has west at most east and south at most north exactly when
  the reported corners are so ordered.
\<close>

theorem bounds_passes_corners_through:
  assumes "bounds mapRef = Inr (Some (west, south, east, north))"
  shows "\<exists>current mp mapBounds sw ne. mapRef = Some current \<and>
      getMap current = Some (Returns (Some mp)) \<and>
      getBounds mp = Some (Returns (Some mapBounds)) \<and>
      getSouthWest mapBounds = Returns (Some sw) \<and>
      getNorthEast mapBounds = Returns (Some ne) \<and>
      west = lng sw \<and> south = lat sw \<and> east = lng ne \<and> north = lat ne \<and>
      validRect (west, south, east, north) = (lng sw \<le> lng ne \<and> lat sw \<le> lat ne)"
  using assms unfolding bounds_Some_iff by auto

theorem bounds_passes_corners_through_witness:
  "bounds (mountedCamera \<lparr>lng = -10, lat = -5\<rparr> \<lparr>lng = 10, lat = 5\<rparr>)
     = Inr (Some (-10, -5, 10, 5)) \<and>
   (\<exists>(sw::lngLat) (ne::lngLat). -10 = lng sw \<and> -5 = lat sw \<and> 10 = lng ne \<and> 5 = lat ne \<and>
      validRect (-10, -5, 10, 5) = (lng sw \<le> lng ne \<and> lat sw \<le> lat ne))"
proof -
  have h: "bounds (mountedCamera \<lparr>lng = -10, lat = -5\<rparr> \<lparr>lng = 10, lat = 5\<rparr>)
     = Inr (Some (-10, -5, 10, 5))"
    by (simp add: bounds_def boundsTry_def mountedCamera_def)
  from bounds_passes_corners_through [OF h] h show ?thesis
    by blast
qed

lemma bounds_unavailable:
  assumes "\<not> (\<exists>current mp mapBounds sw ne. mapRef = Some current \<and>
      getMap current = Some (Returns (Some mp)) \<and>
      getBounds mp = Some (Returns (Some mapBounds)) \<and>
      getSouthWest mapBounds = Returns (Some sw) \<and>
      getNorthEast mapBounds = Returns (Some ne))"
  shows "bounds mapRef = Inr None"
proof (cases "bounds mapRef")
  case (Inl a)
  then show ?thesis by (simp add: bounds_total)
next
  case (Inr r)
  show ?thesis
  proof (cases r)
    case None
    with Inr show ?thesis by simp
  next
    case (Some q)
    with Inr have "bounds mapRef = Inr (Some q)" by simp
    with assms show ?thesis unfolding bounds_Some_iff by blast
  qed
qed

lemma useMemoBounds_total: "useMemoBounds prev mapRef view \<noteq> Inl e"
  by (cases "bounds mapRef")
     (simp_all add: useMemoBounds_def computeBoundsMemo_def bounds_total split: option.splits)

lemma renderClustering_total:
  "renderClustering useSupercluster prev mapRef view filteredVisitors \<noteq> Inl e"
  by (cases "useMemoBounds prev mapRef view")
     (simp_all add: renderClustering_def useMemoBounds_total)

lemma useClustering_no_bounds:
  "useClustering useSupercluster filteredVisitors None (Some (Num z)) =
     useSupercluster \<lparr>points = map toPoint filteredVisitors, boundsArg = None,
       zoomArg = Num (if z = 0 then 2 else z), radius = 60, maxZoom = 14\<rparr>"
  by (simp add: useClustering_def useSuperclusterParams_def MIN_ZOOM_def RADIUS_def MAX_ZOOM_def)

text \<open>
  A memo that holds \<open>null\<close> is kept while the dependencies stay the same, whatever the map
  has become since: the render after \<open>onLoad\<close>, which stores a copy of the same view
  state, still hands no bounds to the clustering collaborator.
\<close>

lemma bounds_memo_kept:
  "renderClustering useSupercluster
       (Some \<lparr>memoDeps = boundsDeps view, memoValue = None\<rparr>) anyRef view filteredVisitors =
     Inr (\<lparr>memoDeps = boundsDeps view, memoValue = None\<rparr>,
          useSupercluster \<lparr>points = map toPoint filteredVisitors, boundsArg = None,
            zoomArg = Num (if \<lfloor>vsZoom view\<rfloor> = 0 then 2 else of_int \<lfloor>vsZoom view\<rfloor>),
            radius = 60, maxZoom = 14\<rparr>)"
  by (simp add: renderClustering_def useMemoBounds_def useClustering_no_bounds)

text \<open>
  C9: unless the map is mounted and every call of the chain \<open>getMap\<close>, \<open>getBounds\<close>,
  \<open>getSouthWest\<close>, \<open>getNorthEast\<close> returns an object, the memo callback returns \<open>null\<close>,
  and it throws for no input. On a render that runs the callback (the first one, or one
  with a changed dependency) the clustering collaborator is then called, whatever it
  is, with the points of all filtered visitors in their order, with no bounds, with the
  floored view zoom (2 when that is 0) and with radius 60 and maximal zoom 14, and the
  render yields the collaborator's answer; no render ends in an error.
\<close>

theorem bounds_unavailable_is_null:
  assumes "\<not> (\<exists>current mp mapBounds sw ne. mapRef = Some current \<and>
      getMap current = Some (Returns (Some mp)) \<and>
      getBounds mp = Some (Returns (Some mapBounds)) \<and>
      getSouthWest mapBounds = Returns (Some sw) \<and>
      getNorthEast mapBounds = Returns (Some ne))"
    and "prev = None \<or> (\<exists>memo. prev = Some memo \<and> memoDeps memo \<noteq> boundsDeps view)"
  shows "bounds mapRef = Inr None \<and> bounds anyRef \<noteq> Inl e \<and>
     renderClustering useSupercluster prev mapRef view filteredVisitors =
       Inr (\<lparr>memoDeps = boundsDeps view, memoValue = None\<rparr>,
            useSupercluster \<lparr>points = map toPoint filteredVisitors, boundsArg = None,
              zoomArg = Num (if \<lfloor>vsZoom view\<rfloor> = 0 then 2 else of_int \<lfloor>vsZoom view\<rfloor>),
              radius = 60, maxZoom = 14\<rparr>) \<and>
     useClustering useSupercluster filteredVisitors None (Some (Num z)) =
       useSupercluster \<lparr>points = map toPoint filteredVisitors, boundsArg = None,
         zoomArg = Num (if z = 0 then 2 else z), radius = 60, maxZoom = 14\<rparr> \<and>
     renderClustering useSupercluster anyPrev anyRef anyView filteredVisitors \<noteq> Inl e"
proof -
  have null: "bounds mapRef = Inr None"
    using assms(1) by (rule bounds_unavailable)
  then have memo: "useMemoBounds prev mapRef view
      = Inr \<lparr>memoDeps = boundsDeps view, memoValue = None\<rparr>"
    using assms(2) by (auto simp: useMemoBounds_def computeBoundsMemo_def)
  have call: "renderClustering useSupercluster prev mapRef view filteredVisitors =
       Inr (\<lparr>memoDeps = boundsDeps view, memoValue = None\<rparr>,
            useSupercluster \<lparr>points = map toPoint filteredVisitors, boundsArg = None,
              zoomArg = Num (if \<lfloor>vsZoom view\<rfloor> = 0 then 2 else of_int \<lfloor>vsZoom view\<rfloor>),
              radius = 60, maxZoom = 14\<rparr>)"
    by (simp add: renderClustering_def memo useClustering_no_bounds)
  from null call show ?thesis
    by (simp add: bounds_total renderClustering_total useClustering_no_bounds)
qed

theorem bounds_unavailable_is_null_witness:
  "\<not> (\<exists>current mp mapBounds sw ne. failingCamera = Some current \<and>
      getMap current = Some (Returns (Some mp)) \<and>
      getBounds mp = Some (Returns (Some mapBounds)) \<and>
      getSouthWest mapBounds = Returns (Some sw) \<and>
      getNorthEast mapBounds = Returns (Some ne)) \<and>
   bounds failingCamera = Inr None \<and>
   renderClustering (\<lambda>p. (map featureVisitorId (points p), boundsArg p, zoomArg p))
       None failingCamera DEFAULT_VIEW_STATE [alice, bare] =
     Inr (\<lparr>memoDeps = (0, 20, 5 / 2), memoValue = None\<rparr>, ([''v1'', ''v2''], None, Num 2))"
proof -
  have h: "\<not> (\<exists>current mp mapBounds sw ne. failingCamera = Some current \<and>
      getMap current = Some (Returns (Some mp)) \<and>
      getBounds mp = Some (Returns (Some mapBounds)) \<and>
      getSouthWest mapBounds = Returns (Some sw) \<and>
      getNorthEast mapBounds = Returns (Some ne))"
    by (auto simp: failingCamera_def)
  have f: "\<lfloor>5 / 2 :: real\<rfloor> = 2"
    by simp
  have m: "(None :: boundsMemo option) = None \<or>
      (\<exists>memo. None = Some memo \<and> memoDeps memo \<noteq> boundsDeps DEFAULT_VIEW_STATE)"
    by simp
  from bounds_unavailable_is_null [OF h m,
      where useSupercluster = "\<lambda>p. (map featureVisitorId (points p), boundsArg p, zoomArg p)"
        and filteredVisitors = "[alice, bare]"] h f
  show ?thesis
    by (simp add: boundsDeps_def DEFAULT_VIEW_STATE_def toPoint_def alice_def bare_def)
qed

section \<open>Properties of the selection\<close>

lemma card_selectedIds: "card (selectedIds st) \<le> 1"
  by (cases "selectedMarker st") (simp_all add: selectedIds_def)

text \<open>
  C7: a state reached from the initial one by any sequence of events holds at most one
  selected id; after a click on marker \<open>a\<close> and then on a marker \<open>b\<close> with another id,
  the selection is \<open>b\<close> alone: \<open>b\<close> is shown selected and \<open>a\<close> is not.
\<close>

theorem selection_replaced_not_accumulated:
  assumes "visitorId a \<noteq> visitorId b"
  shows "card (selectedIds (foldl dispatch (initialState mounted) events)) \<le> 1 \<and>
     selectedMarker (handleMarkerClick b (handleMarkerClick a st))
       = Some \<lparr>selId = visitorId b, selVisitor = b\<rparr> \<and>
     selectedIds (handleMarkerClick b (handleMarkerClick a st)) = {visitorId b} \<and>
     isSelected (handleMarkerClick b (handleMarkerClick a st)) b \<and>
     \<not> isSelected (handleMarkerClick b (handleMarkerClick a st)) a"
proof -
  have sel: "selectedMarker (handleMarkerClick b (handleMarkerClick a st))
       = Some \<lparr>selId = visitorId b, selVisitor = b\<rparr>"
    by (simp add: handleMarkerClick_def Let_def)
  have one: "card (selectedIds (foldl dispatch (initialState mounted) events)) \<le> 1"
    by (rule card_selectedIds)
  from sel assms have "selectedIds (handleMarkerClick b (handleMarkerClick a st)) = {visitorId b} \<and>
     isSelected (handleMarkerClick b (handleMarkerClick a st)) b \<and>
     \<not> isSelected (handleMarkerClick b (handleMarkerClick a st)) a"
    by (simp add: selectedIds_def isSelected_def)
  with one sel show ?thesis
    by blast
qed

theorem selection_replaced_not_accumulated_witness:
  "visitorId alice \<noteq> visitorId bare \<and>
   selectedIds (handleMarkerClick bare (handleMarkerClick alice (initialState True)))
     = {visitorId bare} \<and>
   \<not> isSelected (handleMarkerClick bare (handleMarkerClick alice (initialState True))) alice"
proof -
  have h: "visitorId alice \<noteq> visitorId bare"
    by (simp add: alice_def bare_def)
  from selection_replaced_not_accumulated [OF h, of True "[]" "initialState True"] h
  show ?thesis by simp
qed

section \<open>Properties of the cluster expansion\<close>

text \<open>
  C8: for a cluster id that the clustering collaborator knows, with the map mounted, a
  click on the cluster sends one \<open>flyTo\<close> whose zoom is the reported expansion zoom plus 1,
  capped at 18; that zoom is at most 18, and above the reported zoom whenever the
  reported zoom is below 18.
\<close>

theorem cluster_expansion_zoom:
  assumes "getClusterExpansionZoom (clusterId c) = Some reported" and "mapMounted st"
  shows "\<exists>st'. handleClusterClick (Some getClusterExpansionZoom) c st = Inr st' \<and>
          length (flights st') = Suc (length (flights st)) \<and>
          center (last (flights st')) = clusterCoordinates c \<and>
          zoom (last (flights st')) = min (reported + 1) 18 \<and>
          zoom (last (flights st')) \<le> 18 \<and>
          (reported < 18 \<longrightarrow> reported < zoom (last (flights st')))"
  using assms
  by (simp add: handleClusterClick_def expansionZoom_def CLUSTER_MAX_EXPANSION_ZOOM_def)

theorem cluster_expansion_zoom_witness:
  "sampleIndex (clusterId sampleCluster) = Some 5 \<and>
   mapMounted (initialState True) \<and>
   (\<exists>st'. handleClusterClick (Some sampleIndex) sampleCluster (initialState True) = Inr st' \<and>
        zoom (last (flights st')) = 6 \<and> (5::real) < 18 \<and> 5 < zoom (last (flights st')))"
proof -
  have h1: "sampleIndex (clusterId sampleCluster) = Some 5"
    by (simp add: sampleCluster_def sampleIndex_def)
  have h2: "mapMounted (initialState True)"
    by (simp add: initialState_def)
  from cluster_expansion_zoom [of sampleIndex sampleCluster 5 "initialState True", OF h1 h2] h1 h2
  show ?thesis
    by auto
qed

end
